theory Spec2Isabelle
  imports Complex_Main
begin

section \<open>Python strings\<close>

text \<open>
  A Python \<^verbatim>\<open>str\<close> is modelled as a \<^typ>\<open>string\<close> holding its UTF-8 bytes. A code
  point below 128 is one byte with the top bit clear; any other code point is a lead
  byte followed by its continuation bytes, which are the bytes of the form 10xxxxxx.
\<close>

definition is_ascii :: "char \<Rightarrow> bool" where
  "is_ascii c = (\<not> digit7 c)"

definition is_continuation :: "char \<Rightarrow> bool" where
  "is_continuation c = (digit7 c \<and> \<not> digit6 c)"

text \<open>
  \<^verbatim>\<open>s.lower()\<close>. On a string of ASCII code points the result is the string with
  \<^verbatim>\<open>A\<close> to \<^verbatim>\<open>Z\<close> replaced by \<^verbatim>\<open>a\<close> to \<^verbatim>\<open>z\<close>. On any other string the
  result comes from the case mapping of the Unicode character database, which maps, for
  one, the Kelvin sign U+212A to \<^verbatim>\<open>k\<close>; the database is not reproduced, the mapping
  is the parameter \<open>unicode_lower\<close> of \<open>py_lower\<close> and of every function that
  lower-cases a string.
\<close>

definition lower_char :: "char \<Rightarrow> char" where
  "lower_char c =
     (case map_of (zip ''ABCDEFGHIJKLMNOPQRSTUVWXYZ'' ''abcdefghijklmnopqrstuvwxyz'') c of
        Some l \<Rightarrow> l
      | None \<Rightarrow> c)"

definition py_lower :: "(string \<Rightarrow> string) \<Rightarrow> string \<Rightarrow> string" where
  "py_lower unicode_lower s =
     (if list_all is_ascii s then map lower_char s else unicode_lower s)"

text \<open>\<^verbatim>\<open>needle in hay\<close> on two strings: \<open>needle\<close> occurs as a contiguous substring.\<close>

fun starts_with :: "string \<Rightarrow> string \<Rightarrow> bool" where
  "starts_with [] hay = True"
| "starts_with (n # ns) [] = False"
| "starts_with (n # ns) (h # hs) = (n = h \<and> starts_with ns hs)"

fun py_in :: "string \<Rightarrow> string \<Rightarrow> bool" where
  "py_in needle [] = (needle = [])"
| "py_in needle (h # hs) = (starts_with needle (h # hs) \<or> py_in needle hs)"

section \<open>helpers.py: the keyword risk summarizer\<close>

text \<open>
  The three messages of \<^verbatim>\<open>get_ibm_granite_alerts\<close>. Each starts with an emoji, given
  here by its UTF-8 bytes (U+2757 U+FE0F, U+26A0 U+FE0F, U+2705).
\<close>

definition severe_message :: string where
  "severe_message =
     [CHR 0xE2, CHR 0x9D, CHR 0x97, CHR 0xEF, CHR 0xB8, CHR 0x8F]
     @ '' Severe interaction detected. Immediate consultation advised.''"

definition high_risk_message :: string where
  "high_risk_message =
     [CHR 0xE2, CHR 0x9A, CHR 0xA0, CHR 0xEF, CHR 0xB8, CHR 0x8F]
     @ '' High-risk interaction detected. Use with caution.''"

definition no_risk_message :: string where
  "no_risk_message =
     [CHR 0xE2, CHR 0x9C, CHR 0x85]
     @ '' No severe interaction risk detected. Monitor patient as usual.''"

text \<open>
  \<^verbatim>\<open>get_ibm_granite_alerts(text)\<close> for a \<^verbatim>\<open>str\<close> argument: the \<^verbatim>\<open>if/elif/else\<close>
  chain over \<^verbatim>\<open>text_lower = text.lower()\<close>, in the source's order.
\<close>

definition get_ibm_granite_alerts :: "(string \<Rightarrow> string) \<Rightarrow> string \<Rightarrow> string" where
  "get_ibm_granite_alerts unicode_lower text =
     (let text_lower = py_lower unicode_lower text in
      if py_in ''increase'' text_lower \<or> py_in ''risk'' text_lower
         \<or> py_in ''harmful'' text_lower \<or> py_in ''severe'' text_lower
      then severe_message
      else if py_in ''decrease'' text_lower \<or> py_in ''monitor'' text_lower
         \<or> py_in ''caution'' text_lower
      then high_risk_message
      else no_risk_message)"

text \<open>
  The summarizer as the specification words it: a bucket chosen by keyword sets, and
  one fixed message per bucket.
\<close>

datatype bucket = Severe | HighRisk | NoSevereRisk

definition severe_keywords :: "string list" where
  "severe_keywords = [''increase'', ''risk'', ''harmful'', ''severe'']"

definition caution_keywords :: "string list" where
  "caution_keywords = [''decrease'', ''monitor'', ''caution'']"

definition classify :: "string \<Rightarrow> bucket" where
  "classify lowered =
     (if list_ex (\<lambda>k. py_in k lowered) severe_keywords then Severe
      else if list_ex (\<lambda>k. py_in k lowered) caution_keywords then HighRisk
      else NoSevereRisk)"

fun bucket_message :: "bucket \<Rightarrow> string" where
  "bucket_message Severe = severe_message"
| "bucket_message HighRisk = high_risk_message"
| "bucket_message NoSevereRisk = no_risk_message"

definition summarize_spec :: "(string \<Rightarrow> string) \<Rightarrow> string \<Rightarrow> string" where
  "summarize_spec unicode_lower d = bucket_message (classify (py_lower unicode_lower d))"

section \<open>Python exceptions\<close>

text \<open>
  Every \<^verbatim>\<open>raise\<close> of the program and every exception its expressions can throw is a
  value: an operation returns \<open>Inl\<close> of the exception or \<open>Inr\<close> of its result.
  \<open>HTTPException\<close> carries the status code and the detail string.
\<close>

datatype py_error =
    HTTPException nat string
  | KeyError string
  | AttributeError
  | TypeError
  | IndexError
  | ValueError
  | OtherError string

section \<open>helpers.py: the reference dataset\<close>

text \<open>
  The frame that \<^verbatim>\<open>pd.read_csv\<close> returns: the column labels (distinct, as
  \<^verbatim>\<open>read_csv\<close> makes them) and the rows, each a list of cells in column order. A cell
  is a string, an integer, a float, a bool, or the missing value NaN; a column in which
  every entry reads as a number holds numbers, not strings. \<^verbatim>\<open>pd.DataFrame()\<close> is
  the frame with no column and no row.
\<close>

datatype cell = CStr string | CInt int | CFloat real | CBool bool | CNaN

record dataframe =
  columns :: "string list"
  rows :: "cell list list"

definition empty_DataFrame :: dataframe where
  "empty_DataFrame = \<lparr>columns = [], rows = []\<rparr>"

text \<open>
  \<^verbatim>\<open>load_ddi_dataset(file_path)\<close>, over what \<^verbatim>\<open>pd.read_csv\<close> does with the file: it
  parses it, raises \<^verbatim>\<open>FileNotFoundError\<close>, or raises something else (a file of zero
  bytes gives \<^verbatim>\<open>EmptyDataError\<close>). Only \<^verbatim>\<open>FileNotFoundError\<close> is caught.
\<close>

datatype read_csv_outcome = Parsed dataframe | FileNotFoundError | ReadRaises py_error

definition load_ddi_dataset :: "read_csv_outcome \<Rightarrow> py_error + dataframe" where
  "load_ddi_dataset outcome =
     (case outcome of
        Parsed df \<Rightarrow> Inr df
      | FileNotFoundError \<Rightarrow> Inr empty_DataFrame
      | ReadRaises e \<Rightarrow> Inl e)"

fun col_pos :: "string \<Rightarrow> string list \<Rightarrow> nat option" where
  "col_pos name [] = None"
| "col_pos name (c # cs) = (if c = name then Some 0 else map_option Suc (col_pos name cs))"

text \<open>A row shorter than the header is filled with NaN by \<^verbatim>\<open>read_csv\<close>.\<close>

definition cell_at :: "cell list \<Rightarrow> nat \<Rightarrow> cell" where
  "cell_at row i = (if i < length row then row ! i else CNaN)"

text \<open>\<^verbatim>\<open>df[name]\<close>: the column as a series, \<^verbatim>\<open>KeyError\<close> when there is no such column.\<close>

definition column :: "dataframe \<Rightarrow> string \<Rightarrow> py_error + cell list" where
  "column df name =
     (case col_pos name (columns df) of
        None \<Rightarrow> Inl (KeyError name)
      | Some i \<Rightarrow> Inr (map (\<lambda>row. cell_at row i) (rows df)))"

text \<open>\<^verbatim>\<open>row[name]\<close> on a row that \<^verbatim>\<open>iterrows()\<close> yields.\<close>

definition row_get :: "dataframe \<Rightarrow> cell list \<Rightarrow> string \<Rightarrow> py_error + cell" where
  "row_get df row name =
     (case col_pos name (columns df) of
        None \<Rightarrow> Inl (KeyError name)
      | Some i \<Rightarrow> Inr (cell_at row i))"

text \<open>
  \<^verbatim>\<open>series == value\<close> for a \<^verbatim>\<open>str\<close> value: element by element; a number, a
  bool and NaN are never equal to a string. \<^verbatim>\<open>&\<close> and \<^verbatim>\<open>|\<close> work element by element, and
  \<^verbatim>\<open>df[mask]\<close> keeps the rows whose mask entry is true, in row order.
\<close>

definition series_eq :: "cell list \<Rightarrow> string \<Rightarrow> bool list" where
  "series_eq series v = map (\<lambda>c. c = CStr v) series"

definition mask_and :: "bool list \<Rightarrow> bool list \<Rightarrow> bool list" where
  "mask_and m1 m2 = map (\<lambda>(a, b). a \<and> b) (zip m1 m2)"

definition mask_or :: "bool list \<Rightarrow> bool list \<Rightarrow> bool list" where
  "mask_or m1 m2 = map (\<lambda>(a, b). a \<or> b) (zip m1 m2)"

definition select_rows :: "dataframe \<Rightarrow> bool list \<Rightarrow> cell list list" where
  "select_rows df selected = map fst (filter snd (zip (rows df) selected))"

section \<open>main.py: check\_interactions\<close>

text \<open>
  Lines 66 to 69, the pair lookup: the rows of \<^verbatim>\<open>ddi_df\<close> whose identifier columns
  hold the two identifiers in either order.
\<close>

definition lookup_pair :: "dataframe \<Rightarrow> string \<Rightarrow> string \<Rightarrow> py_error + cell list list" where
  "lookup_pair df id1 id2 =
     (case column df ''RxCUI_1'' of
        Inl e \<Rightarrow> Inl e
      | Inr c1 \<Rightarrow>
          (case column df ''RxCUI_2'' of
             Inl e \<Rightarrow> Inl e
           | Inr c2 \<Rightarrow>
               Inr (select_rows df
                 (mask_or (mask_and (series_eq c1 id1) (series_eq c2 id2))
                          (mask_and (series_eq c1 id2) (series_eq c2 id1))))))"

text \<open>
  One entry of the \<^verbatim>\<open>interactions\<close> list. The fields hold the cells of the row as
  they are; the alert is the string that \<^verbatim>\<open>get_ibm_granite_alerts\<close> returns.
\<close>

record interaction_result =
  drug1 :: cell
  drug2 :: cell
  rxcui1 :: cell
  rxcui2 :: cell
  description :: cell
  alert :: string

text \<open>
  \<^verbatim>\<open>get_ibm_granite_alerts\<close> called on a cell: \<^verbatim>\<open>text.lower()\<close> exists on a
  \<^verbatim>\<open>str\<close> only, a number, a bool or NaN raises \<^verbatim>\<open>AttributeError\<close>.
\<close>

definition alert_of_cell :: "(string \<Rightarrow> string) \<Rightarrow> cell \<Rightarrow> py_error + string" where
  "alert_of_cell unicode_lower c =
     (case c of
        CStr s \<Rightarrow> Inr (get_ibm_granite_alerts unicode_lower s)
      | CInt n \<Rightarrow> Inl AttributeError
      | CFloat x \<Rightarrow> Inl AttributeError
      | CBool b \<Rightarrow> Inl AttributeError
      | CNaN \<Rightarrow> Inl AttributeError)"

text \<open>Lines 73 to 82, the body of the loop over the matching rows, in evaluation order.\<close>

definition make_result ::
  "(string \<Rightarrow> string) \<Rightarrow> dataframe \<Rightarrow> cell list \<Rightarrow> py_error + interaction_result"
where
  "make_result unicode_lower df row =
     (case row_get df row ''Interaction Description'' of
        Inl e \<Rightarrow> Inl e
      | Inr interaction_description \<Rightarrow>
     (case alert_of_cell unicode_lower interaction_description of
        Inl e \<Rightarrow> Inl e
      | Inr al \<Rightarrow>
     (case row_get df row ''Drug 1'' of
        Inl e \<Rightarrow> Inl e
      | Inr d1 \<Rightarrow>
     (case row_get df row ''Drug 2'' of
        Inl e \<Rightarrow> Inl e
      | Inr d2 \<Rightarrow>
     (case row_get df row ''RxCUI_1'' of
        Inl e \<Rightarrow> Inl e
      | Inr r1 \<Rightarrow>
     (case row_get df row ''RxCUI_2'' of
        Inl e \<Rightarrow> Inl e
      | Inr r2 \<Rightarrow>
          Inr \<lparr>drug1 = d1, drug2 = d2, rxcui1 = r1, rxcui2 = r2,
               description = interaction_description, alert = al\<rparr>))))))"

fun append_rows ::
  "(string \<Rightarrow> string) \<Rightarrow> dataframe \<Rightarrow> cell list list \<Rightarrow> interaction_result list
     \<Rightarrow> py_error + interaction_result list"
where
  "append_rows unicode_lower df [] interactions = Inr interactions"
| "append_rows unicode_lower df (row # others) interactions =
     (case make_result unicode_lower df row of
        Inl e \<Rightarrow> Inl e
      | Inr entry \<Rightarrow> append_rows unicode_lower df others (interactions @ [entry]))"

text \<open>
  Lines 61 to 64: the two \<^verbatim>\<open>range\<close> loops give the index pairs \<open>(i, j)\<close> with
  \<open>i < j\<close> in this order, and each index pair is one lookup of
  \<open>(found_rxcui[i], found_rxcui[j])\<close>.
\<close>

definition index_pairs :: "nat \<Rightarrow> (nat \<times> nat) list" where
  "index_pairs n = concat (map (\<lambda>i. map (\<lambda>j. (i, j)) [i + 1 ..< n]) [0 ..< n])"

definition queried_pairs :: "string list \<Rightarrow> (string \<times> string) list" where
  "queried_pairs found = map (\<lambda>(i, j). (found ! i, found ! j)) (index_pairs (length found))"


text \<open>
  The loop over the pairs. An exception ends it. The guard
  \<^verbatim>\<open>if not interaction.empty\<close> is the empty case of \<open>append_rows\<close>.
\<close>

fun search_pairs ::
  "(string \<Rightarrow> string) \<Rightarrow> dataframe \<Rightarrow> (string \<times> string) list \<Rightarrow> interaction_result list
     \<Rightarrow> py_error + interaction_result list"
where
  "search_pairs unicode_lower df [] interactions = Inr interactions"
| "search_pairs unicode_lower df ((id1, id2) # others) interactions =
     (case lookup_pair df id1 id2 of
        Inl e \<Rightarrow> Inl e
      | Inr interaction \<Rightarrow>
          (case append_rows unicode_lower df interaction interactions of
             Inl e \<Rightarrow> Inl e
           | Inr interactions' \<Rightarrow> search_pairs unicode_lower df others interactions'))"

definition not_enough_message :: string where
  "not_enough_message = ''Not enough drugs with RxCUIs found to check for interactions.''"

definition checked_message :: string where
  "checked_message = ''Interactions checked successfully.''"

definition no_drugs_detail :: string where
  "no_drugs_detail = ''No drugs found in the prescription.''"

text \<open>
  Lines 54 to 84, from \<^verbatim>\<open>found_rxcui\<close> on: the response is the message and the
  \<^verbatim>\<open>interactions\<close> list.
\<close>

definition find_interactions ::
  "(string \<Rightarrow> string) \<Rightarrow> dataframe \<Rightarrow> string list
     \<Rightarrow> py_error + (string \<times> interaction_result list)"
where
  "find_interactions unicode_lower df found =
     (if length found < 2 then Inr (not_enough_message, [])
      else (case search_pairs unicode_lower df (queried_pairs found) [] of
              Inl e \<Rightarrow> Inl e
            | Inr interactions \<Rightarrow> Inr (checked_message, interactions)))"

text \<open>
  A Python \<^verbatim>\<open>dict\<close> keeps its keys in insertion order; storing under a key that is
  there replaces the value and keeps the key's place.
\<close>

fun dict_put :: "('k \<times> 'v) list \<Rightarrow> 'k \<Rightarrow> 'v \<Rightarrow> ('k \<times> 'v) list" where
  "dict_put [] k v = [(k, v)]"
| "dict_put ((k', v') # kvs) k v =
     (if k' = k then (k, v) # kvs else (k', v') # dict_put kvs k v)"

text \<open>
  Line 52, \<^verbatim>\<open>{drug: get_rxcui(drug) for drug in extracted_drugs}\<close>. The call
  \<^verbatim>\<open>get_rxcui(drug)\<close> goes to the network; \<open>rx drug\<close> is its outcome, an exception
  or the \<^verbatim>\<open>Optional[str]\<close> that its signature declares, taken to be the same
  each time the same name is looked up within a request. The first exception ends the
  comprehension.
\<close>

fun build_rxcui_map ::
  "(string \<Rightarrow> py_error + string option) \<Rightarrow> string list \<Rightarrow> (string \<times> string option) list
     \<Rightarrow> py_error + (string \<times> string option) list"
where
  "build_rxcui_map rx [] rxcui_map = Inr rxcui_map"
| "build_rxcui_map rx (d # ds) rxcui_map =
     (case rx d of
        Inl e \<Rightarrow> Inl e
      | Inr r \<Rightarrow> build_rxcui_map rx ds (dict_put rxcui_map d r))"

text \<open>Line 55: the values that are not \<^verbatim>\<open>None\<close>, in the order of the dict.\<close>

definition found_rxcui :: "(string \<times> string option) list \<Rightarrow> string list" where
  "found_rxcui rxcui_map =
     concat (map (\<lambda>(d, r). case r of None \<Rightarrow> [] | Some x \<Rightarrow> [x]) rxcui_map)"

text \<open>
  \<^verbatim>\<open>query_hugging_face_ner\<close> as it is in the source: a placeholder that returns the
  same two names for every text.
\<close>

definition query_hugging_face_ner :: "string \<Rightarrow> string list" where
  "query_hugging_face_ner text = [''Paracetamol'', ''Warfarin'']"

text \<open>
  The endpoint, over any entity extractor \<open>ner\<close>, and with the extractor of the source.
\<close>

definition check_interactions_via ::
  "(string \<Rightarrow> string) \<Rightarrow> (string \<Rightarrow> string list) \<Rightarrow> (string \<Rightarrow> py_error + string option)
     \<Rightarrow> dataframe \<Rightarrow> string \<Rightarrow> py_error + (string \<times> interaction_result list)"
where
  "check_interactions_via unicode_lower ner rx df text =
     (let extracted_drugs = ner text in
      if extracted_drugs = [] then Inl (HTTPException 404 no_drugs_detail)
      else (case build_rxcui_map rx extracted_drugs [] of
              Inl e \<Rightarrow> Inl e
            | Inr rxcui_map \<Rightarrow> find_interactions unicode_lower df (found_rxcui rxcui_map)))"

definition check_interactions ::
  "(string \<Rightarrow> string) \<Rightarrow> (string \<Rightarrow> py_error + string option) \<Rightarrow> dataframe \<Rightarrow> string
     \<Rightarrow> py_error + (string \<times> interaction_result list)"
where
  "check_interactions unicode_lower rx df text =
     check_interactions_via unicode_lower query_hugging_face_ner rx df text"

section \<open>main.py: dosage\_alternatives\<close>

text \<open>Lines 103 to 107: the status label, from the age and the raw text of the request.\<close>

definition dosage_status_of :: "(string \<Rightarrow> string) \<Rightarrow> int \<Rightarrow> string \<Rightarrow> string" where
  "dosage_status_of unicode_lower age text =
     (if age < 18 \<and> py_in ''tablet'' (py_lower unicode_lower text)
      then ''May need dosage adjustment for children.''
      else if age > 65 then ''Monitor closely for elderly patients.''
      else ''Appropriate'')"

record dosage_entry =
  drug :: string
  rxcui :: string
  dosage_forms :: "string list"
  alternatives :: "string list"
  dosage_status :: string

definition dosage_message :: string where
  "dosage_message = ''Dosage and alternatives checked successfully.''"

text \<open>
  Lines 96 to 115, the loop over \<^verbatim>\<open>extracted_drugs\<close>. \<open>rx\<close>, \<open>forms\<close> and \<open>alts\<close>
  are the outcomes of the network-bound calls \<^verbatim>\<open>get_rxcui\<close>,
  \<^verbatim>\<open>get_dosage_forms\<close> and \<^verbatim>\<open>get_alternatives\<close>: an exception, or the value of
  the declared type. \<^verbatim>\<open>if rxcui:\<close> is false for \<^verbatim>\<open>None\<close> and for the empty string.
\<close>

fun dosage_loop ::
  "(string \<Rightarrow> string) \<Rightarrow> (string \<Rightarrow> py_error + string option)
     \<Rightarrow> (string \<Rightarrow> py_error + string list) \<Rightarrow> (string \<Rightarrow> py_error + string list)
     \<Rightarrow> int \<Rightarrow> string \<Rightarrow> string list \<Rightarrow> dosage_entry list
     \<Rightarrow> py_error + dosage_entry list"
where
  "dosage_loop unicode_lower rx forms alts age text [] results = Inr results"
| "dosage_loop unicode_lower rx forms alts age text (d # ds) results =
     (case rx d of
        Inl e \<Rightarrow> Inl e
      | Inr None \<Rightarrow> dosage_loop unicode_lower rx forms alts age text ds results
      | Inr (Some x) \<Rightarrow>
          if x = [] then dosage_loop unicode_lower rx forms alts age text ds results
          else (case forms x of
                  Inl e \<Rightarrow> Inl e
                | Inr fs \<Rightarrow>
                    (case alts x of
                       Inl e \<Rightarrow> Inl e
                     | Inr as \<Rightarrow>
                         dosage_loop unicode_lower rx forms alts age text ds
                           (results @ [\<lparr>drug = d, rxcui = x, dosage_forms = fs,
                                         alternatives = as,
                                         dosage_status = dosage_status_of unicode_lower age text\<rparr>]))))"

definition dosage_alternatives_via ::
  "(string \<Rightarrow> string) \<Rightarrow> (string \<Rightarrow> string list) \<Rightarrow> (string \<Rightarrow> py_error + string option)
     \<Rightarrow> (string \<Rightarrow> py_error + string list) \<Rightarrow> (string \<Rightarrow> py_error + string list)
     \<Rightarrow> string \<Rightarrow> int \<Rightarrow> py_error + (string \<times> dosage_entry list)"
where
  "dosage_alternatives_via unicode_lower ner rx forms alts text age =
     (let extracted_drugs = ner text in
      if extracted_drugs = [] then Inl (HTTPException 404 no_drugs_detail)
      else (case dosage_loop unicode_lower rx forms alts age text extracted_drugs [] of
              Inl e \<Rightarrow> Inl e
            | Inr results \<Rightarrow> Inr (dosage_message, results)))"

definition dosage_alternatives ::
  "(string \<Rightarrow> string) \<Rightarrow> (string \<Rightarrow> py_error + string option)
     \<Rightarrow> (string \<Rightarrow> py_error + string list) \<Rightarrow> (string \<Rightarrow> py_error + string list)
     \<Rightarrow> string \<Rightarrow> int \<Rightarrow> py_error + (string \<times> dosage_entry list)"
where
  "dosage_alternatives unicode_lower rx forms alts text age =
     dosage_alternatives_via unicode_lower query_hugging_face_ner rx forms alts text age"

section \<open>helpers.py: get\_rxcui\<close>

text \<open>
  What \<^verbatim>\<open>response.json()\<close> returns: \<^verbatim>\<open>None\<close>, a bool, an integer, a float, a
  string, a list, or a dict given by its items.
\<close>

datatype json =
    JNull
  | JBool bool
  | JNum int
  | JFloat real
  | JStr string
  | JArr "json list"
  | JObj "(string \<times> json) list"

text \<open>
  What \<^verbatim>\<open>requests.get\<close> does: it raises a \<^verbatim>\<open>RequestException\<close> (no connection,
  timeout), or there is a response with a status code and a body, which is JSON or not.
\<close>

datatype http_result = RequestFailed | Response nat "json option"

text \<open>\<^verbatim>\<open>response.raise_for_status()\<close> raises \<^verbatim>\<open>HTTPError\<close> for the codes 400 to 599.\<close>

definition raise_for_status_raises :: "nat \<Rightarrow> bool" where
  "raise_for_status_raises status = (400 \<le> status \<and> status < 600)"

text \<open>\<^verbatim>\<open>key in data\<close> for a string key.\<close>

definition py_contains :: "string \<Rightarrow> json \<Rightarrow> py_error + bool" where
  "py_contains key data =
     (case data of
        JObj items \<Rightarrow> Inr (map_of items key \<noteq> None)
      | JArr xs \<Rightarrow> Inr (JStr key \<in> set xs)
      | JStr s \<Rightarrow> Inr (py_in key s)
      | JNull \<Rightarrow> Inl TypeError
      | JBool b \<Rightarrow> Inl TypeError
      | JNum n \<Rightarrow> Inl TypeError
      | JFloat x \<Rightarrow> Inl TypeError)"

text \<open>\<^verbatim>\<open>data[key]\<close> for a string key.\<close>

definition py_getitem :: "json \<Rightarrow> string \<Rightarrow> py_error + json" where
  "py_getitem data key =
     (case data of
        JObj items \<Rightarrow> (case map_of items key of None \<Rightarrow> Inl (KeyError key) | Some v \<Rightarrow> Inr v)
      | JArr xs \<Rightarrow> Inl TypeError
      | JStr s \<Rightarrow> Inl TypeError
      | JNull \<Rightarrow> Inl TypeError
      | JBool b \<Rightarrow> Inl TypeError
      | JNum n \<Rightarrow> Inl TypeError
      | JFloat x \<Rightarrow> Inl TypeError)"

text \<open>
  \<^verbatim>\<open>data[0]\<close>. On a list it is the first element; on a string it is the string of
  the first code point, that is the first byte and the continuation bytes after it. A
  dict that comes from JSON has string keys only, so the key \<open>0\<close> is never there.
\<close>

definition py_getitem_0 :: "json \<Rightarrow> py_error + json" where
  "py_getitem_0 data =
     (case data of
        JArr xs \<Rightarrow> (case xs of [] \<Rightarrow> Inl IndexError | x # rest \<Rightarrow> Inr x)
      | JStr s \<Rightarrow>
          (case s of
             [] \<Rightarrow> Inl IndexError
           | c # rest \<Rightarrow> Inr (JStr (c # takeWhile is_continuation rest)))
      | JObj items \<Rightarrow> Inl (KeyError ''0'')
      | JNull \<Rightarrow> Inl TypeError
      | JBool b \<Rightarrow> Inl TypeError
      | JNum n \<Rightarrow> Inl TypeError
      | JFloat x \<Rightarrow> Inl TypeError)"

text \<open>
  \<^verbatim>\<open>get_rxcui\<close>, lines 105 to 118. The \<^verbatim>\<open>except\<close> clause catches
  \<^verbatim>\<open>requests.RequestException\<close> only. A body that is not JSON makes
  \<^verbatim>\<open>response.json()\<close> raise; whether that exception is a \<^verbatim>\<open>RequestException\<close>
  depends on the version of the library, which the repository does not fix, so it is the
  parameter \<open>json_error_caught\<close>. The value returned is whatever stands first under
  \<^verbatim>\<open>rxnormId\<close>; JSON \<^verbatim>\<open>null\<close> is Python's \<^verbatim>\<open>None\<close>.
\<close>

definition get_rxcui :: "bool \<Rightarrow> http_result \<Rightarrow> py_error + json option" where
  "get_rxcui json_error_caught result =
     (case result of
        RequestFailed \<Rightarrow> Inr None
      | Response status body \<Rightarrow>
          if raise_for_status_raises status then Inr None
          else (case body of
                  None \<Rightarrow> if json_error_caught then Inr None else Inl ValueError
                | Some data \<Rightarrow>
         (case py_contains ''idGroup'' data of
            Inl e \<Rightarrow> Inl e
          | Inr False \<Rightarrow> Inr None
          | Inr True \<Rightarrow>
         (case py_getitem data ''idGroup'' of
            Inl e \<Rightarrow> Inl e
          | Inr id_group \<Rightarrow>
         (case py_contains ''rxnormId'' id_group of
            Inl e \<Rightarrow> Inl e
          | Inr False \<Rightarrow> Inr None
          | Inr True \<Rightarrow>
         (case py_getitem id_group ''rxnormId'' of
            Inl e \<Rightarrow> Inl e
          | Inr ids \<Rightarrow>
         (case py_getitem_0 ids of
            Inl e \<Rightarrow> Inl e
          | Inr first \<Rightarrow> Inr (if first = JNull then None else Some first))))))))"

text \<open>
  The responses for which the lookup has failed in the way the service itself fails:
  no response at all, an HTTP error status, or a JSON object that has no \<^verbatim>\<open>idGroup\<close>
  or whose \<^verbatim>\<open>idGroup\<close> is an object with no \<^verbatim>\<open>rxnormId\<close>.
\<close>

definition lookup_failed :: "http_result \<Rightarrow> bool" where
  "lookup_failed result =
     (case result of
        RequestFailed \<Rightarrow> True
      | Response status body \<Rightarrow>
          raise_for_status_raises status
          \<or> (case body of
                Some (JObj items) \<Rightarrow>
                  (case map_of items ''idGroup'' of
                     None \<Rightarrow> True
                   | Some (JObj group_items) \<Rightarrow> map_of group_items ''rxnormId'' = None
                   | Some other \<Rightarrow> False)
              | _ \<Rightarrow> False))"

section \<open>Example data\<close>

text \<open>
  A dataset that stores the pair Warfarin (11289), Paracetamol (161). Its second row has
  identifiers that are not numbers, which is what makes \<^verbatim>\<open>read_csv\<close> keep the two
  identifier columns as strings. Then two outcomes of the identifier lookup: both drugs
  resolve, or Warfarin alone does.
\<close>

definition example_ddi :: dataframe where
  "example_ddi =
     \<lparr>columns = [''Drug 1'', ''Drug 2'', ''RxCUI_1'', ''RxCUI_2'', ''Interaction Description''],
      rows = [[CStr ''Warfarin'', CStr ''Paracetamol'', CStr ''11289'', CStr ''161'',
               CStr ''May increase risk of bleeding''],
              [CStr ''Ginkgo'', CStr ''Garlic'', CStr ''unmapped'', CStr ''unmapped'',
               CStr ''No notable effect'']]\<rparr>"

definition example_rx :: "string \<Rightarrow> py_error + string option" where
  "example_rx d =
     (if d = ''Paracetamol'' then Inr (Some ''161'')
      else if d = ''Warfarin'' then Inr (Some ''11289'')
      else Inr None)"

definition only_warfarin_rx :: "string \<Rightarrow> py_error + string option" where
  "only_warfarin_rx d = (if d = ''Warfarin'' then Inr (Some ''11289'') else Inr None)"

text \<open>
  The strings of the examples are ASCII, so their lower-casing never reaches the Unicode
  case mapping; the examples run with the mapping that changes nothing.
\<close>

definition example_lower :: "string \<Rightarrow> string" where
  "example_lower s = s"

section \<open>Properties of the string model\<close>

text \<open>
  In every statement below \<open>ul\<close> is the Unicode case mapping that \<open>py_lower\<close> takes;
  the statements hold for whatever it is.
\<close>

lemma starts_with_iff: "starts_with n h \<longleftrightarrow> (\<exists>zs. h = n @ zs)"
  by (induction n h rule: starts_with.induct) auto

lemma py_in_iff: "py_in n h \<longleftrightarrow> (\<exists>ys zs. h = ys @ n @ zs)"
proof (induction h)
  case Nil
  then show ?case by auto
next
  case (Cons c cs)
  show ?case
  proof
    assume "py_in n (c # cs)"
    then consider "starts_with n (c # cs)" | "py_in n cs" by auto
    then show "\<exists>ys zs. c # cs = ys @ n @ zs"
    proof cases
      case 1
      then obtain zs where "c # cs = n @ zs" by (auto simp: starts_with_iff)
      then have "c # cs = [] @ n @ zs" by simp
      then show ?thesis by blast
    next
      case 2
      with Cons.IH obtain ys zs where "cs = ys @ n @ zs" by auto
      then have "c # cs = (c # ys) @ n @ zs" by simp
      then show ?thesis by blast
    qed
  next
    assume "\<exists>ys zs. c # cs = ys @ n @ zs"
    then obtain ys zs where eq: "c # cs = ys @ n @ zs" by blast
    show "py_in n (c # cs)"
    proof (cases ys)
      case Nil
      with eq have "starts_with n (c # cs)" by (auto simp: starts_with_iff)
      then show ?thesis by simp
    next
      case (Cons y ys')
      with eq have "cs = ys' @ n @ zs" by simp
      with Cons.IH have "py_in n cs" by blast
      then show ?thesis by simp
    qed
  qed
qed

text \<open>
  Lower-casing on an ASCII string does not consult the Unicode case mapping. On the
  description \<^verbatim>\<open>RIS\<close> followed by the Kelvin sign U+212A it does, and with the
  mapping's value \<^verbatim>\<open>risk\<close> the summary is the severe message.
\<close>

lemma py_lower_ascii: "list_all is_ascii s \<Longrightarrow> py_lower ul s = map lower_char s"
  by (simp add: py_lower_def)

lemma kelvin_sign_description:
  assumes "ul (''RIS'' @ [CHR 0xE2, CHR 0x84, CHR 0xAA]) = ''risk''"
  shows "get_ibm_granite_alerts ul (''RIS'' @ [CHR 0xE2, CHR 0x84, CHR 0xAA]) = severe_message"
proof -
  have "py_lower ul (''RIS'' @ [CHR 0xE2, CHR 0x84, CHR 0xAA]) = ''risk''"
    using assms by (simp add: py_lower_def is_ascii_def)
  then show ?thesis by (simp add: get_ibm_granite_alerts_def)
qed

text \<open>
  \<^verbatim>\<open>data[0]\<close> on a string gives the whole first code point: one byte for
  \<^verbatim>\<open>161\<close>, the three bytes of U+212A when the string starts with the Kelvin sign.
\<close>

lemma py_getitem_0_string:
  "py_getitem_0 (JStr ''161'') = Inr (JStr ''1'')
   \<and> py_getitem_0 (JStr ([CHR 0xE2, CHR 0x84, CHR 0xAA] @ ''elvin''))
       = Inr (JStr [CHR 0xE2, CHR 0x84, CHR 0xAA])
   \<and> py_getitem_0 (JStr []) = Inl IndexError"
  by (simp add: py_getitem_0_def is_continuation_def)

section \<open>Properties of the lookup, the loops and the identifier service\<close>


lemma select_rows_subset: "set (select_rows df m) \<subseteq> set (rows df)"
  unfolding select_rows_def by (auto dest: set_zip_leftD)

lemma lookup_pair_subset:
  "lookup_pair df x y = Inr rs \<Longrightarrow> set rs \<subseteq> set (rows df)"
  using select_rows_subset by (auto simp: lookup_pair_def split: sum.splits)

lemma select_rows_mem:
  "row \<in> set (select_rows df m) \<longleftrightarrow> (\<exists>k < length (rows df). k < length m \<and> rows df ! k = row \<and> m ! k)"
  unfolding select_rows_def
  by (auto simp: in_set_zip image_iff)


lemma lookup_pair_matches:
  assumes "lookup_pair df id1 id2 = Inr matched" and "row \<in> set matched"
  shows "row \<in> set (rows df)
     \<and> ((row_get df row ''RxCUI_1'' = Inr (CStr id1) \<and> row_get df row ''RxCUI_2'' = Inr (CStr id2))
        \<or> (row_get df row ''RxCUI_1'' = Inr (CStr id2) \<and> row_get df row ''RxCUI_2'' = Inr (CStr id1)))"
proof -
  from assms(1) obtain i j where ij: "col_pos ''RxCUI_1'' (columns df) = Some i"
    "col_pos ''RxCUI_2'' (columns df) = Some j"
    by (auto simp: lookup_pair_def column_def split: option.splits)
  let ?c1 = "map (\<lambda>row. cell_at row i) (rows df)"
  let ?c2 = "map (\<lambda>row. cell_at row j) (rows df)"
  let ?m = "mask_or (mask_and (series_eq ?c1 id1) (series_eq ?c2 id2))
                    (mask_and (series_eq ?c1 id2) (series_eq ?c2 id1))"
  from assms ij have "row \<in> set (select_rows df ?m)"
    by (simp add: lookup_pair_def column_def)
  then obtain k where k: "k < length (rows df)" "k < length ?m" "rows df ! k = row" "?m ! k"
    by (auto simp: select_rows_mem)
  from k(1,4) have "(cell_at (rows df ! k) i = CStr id1 \<and> cell_at (rows df ! k) j = CStr id2)
      \<or> (cell_at (rows df ! k) i = CStr id2 \<and> cell_at (rows df ! k) j = CStr id1)"
    by (simp add: mask_or_def mask_and_def series_eq_def)
  with k(1,3) ij show ?thesis by (auto simp: row_get_def)
qed

lemma dosage_loop_inv:
  "dosage_loop ul rx forms alts age text ds acc = Inr results \<Longrightarrow>
   \<exists>new. results = acc @ new \<and>
     (\<forall>e \<in> set new. dosage_status e = dosage_status_of ul age text \<and> drug e \<in> set ds
        \<and> rx (drug e) = Inr (Some (rxcui e)) \<and> rxcui e \<noteq> [])"
proof (induction ds arbitrary: acc)
  case Nil
  then show ?case by simp
next
  case (Cons d ds)
  show ?case
  proof (cases "rx d")
    case (Inl e)
    with Cons.prems show ?thesis by simp
  next
    case (Inr r)
    show ?thesis
    proof (cases "r = None \<or> r = Some []")
      case True
      with Inr Cons.prems have "dosage_loop ul rx forms alts age text ds acc = Inr results"
        by auto
      from Cons.IH[OF this] show ?thesis by auto
    next
      case False
      then obtain x where x: "r = Some x" "x \<noteq> []" by auto
      from Cons.prems Inr x obtain fs as where
        fa: "forms x = Inr fs" "alts x = Inr as"
        and rec: "dosage_loop ul rx forms alts age text ds
           (acc @ [\<lparr>drug = d, rxcui = x, dosage_forms = fs, alternatives = as,
                    dosage_status = dosage_status_of ul age text\<rparr>]) = Inr results"
        by (auto split: sum.splits)
      from Cons.IH[OF rec] obtain new where
        new: "results = (acc @ [\<lparr>drug = d, rxcui = x, dosage_forms = fs, alternatives = as,
                    dosage_status = dosage_status_of ul age text\<rparr>]) @ new"
          "\<forall>e \<in> set new. dosage_status e = dosage_status_of ul age text \<and> drug e \<in> set ds
              \<and> rx (drug e) = Inr (Some (rxcui e)) \<and> rxcui e \<noteq> []"
        by blast
      let ?new = "\<lparr>drug = d, rxcui = x, dosage_forms = fs, alternatives = as,
                    dosage_status = dosage_status_of ul age text\<rparr> # new"
      have "results = acc @ ?new" using new(1) by simp
      moreover have "\<forall>e \<in> set ?new. dosage_status e = dosage_status_of ul age text
          \<and> drug e \<in> set (d # ds) \<and> rx (drug e) = Inr (Some (rxcui e)) \<and> rxcui e \<noteq> []"
        using new(2) Inr x by auto
      ultimately show ?thesis by blast
    qed
  qed
qed

lemma dosage_loop_none:
  "\<forall>d \<in> set ds. rx d = Inr None \<Longrightarrow> dosage_loop ul rx forms alts age text ds acc = Inr acc"
  by (induction ds arbitrary: acc) auto

lemma append_rows_inv:
  "append_rows ul df rs acc = Inr out \<Longrightarrow>
   \<exists>new. out = acc @ new \<and> (\<forall>r \<in> set new. \<exists>row \<in> set rs. make_result ul df row = Inr r)"
proof (induction rs arbitrary: acc)
  case Nil
  then show ?case by simp
next
  case (Cons row rs)
  from Cons.prems obtain entry where e: "make_result ul df row = Inr entry"
    and rec: "append_rows ul df rs (acc @ [entry]) = Inr out"
    by (auto split: sum.splits)
  from Cons.IH[OF rec] obtain new where
    "out = (acc @ [entry]) @ new" "\<forall>r \<in> set new. \<exists>row \<in> set rs. make_result ul df row = Inr r"
    by blast
  then have "out = acc @ (entry # new)"
    "\<forall>r \<in> set (entry # new). \<exists>row' \<in> set (row # rs). make_result ul df row' = Inr r"
    using e by auto
  then show ?case by blast
qed

lemma search_pairs_inv:
  "search_pairs ul df ps acc = Inr out \<Longrightarrow>
   \<exists>new. out = acc @ new \<and>
     (\<forall>r \<in> set new. \<exists>p \<in> set ps. \<exists>matched. lookup_pair df (fst p) (snd p) = Inr matched
         \<and> (\<exists>row \<in> set matched. make_result ul df row = Inr r))"
proof (induction ps arbitrary: acc)
  case Nil
  then show ?case by simp
next
  case (Cons p ps)
  obtain a b where p: "p = (a, b)" by (cases p)
  from Cons.prems p obtain matched acc' where
    m: "lookup_pair df a b = Inr matched"
    and ap: "append_rows ul df matched acc = Inr acc'"
    and rec: "search_pairs ul df ps acc' = Inr out"
    by (auto split: sum.splits)
  from append_rows_inv[OF ap] obtain n1 where
    n1: "acc' = acc @ n1" "\<forall>r \<in> set n1. \<exists>row \<in> set matched. make_result ul df row = Inr r"
    by blast
  from Cons.IH[OF rec] obtain n2 where
    n2: "out = acc' @ n2"
      "\<forall>r \<in> set n2. \<exists>q \<in> set ps. \<exists>matched. lookup_pair df (fst q) (snd q) = Inr matched
         \<and> (\<exists>row \<in> set matched. make_result ul df row = Inr r)"
    by blast
  have "out = acc @ (n1 @ n2)" using n1(1) n2(1) by simp
  moreover have "\<exists>q \<in> set (p # ps). \<exists>matched. lookup_pair df (fst q) (snd q) = Inr matched
         \<and> (\<exists>row \<in> set matched. make_result ul df row = Inr r)" if "r \<in> set (n1 @ n2)" for r
  proof (cases "r \<in> set n1")
    case True
    with n1(2) obtain row where "row \<in> set matched" "make_result ul df row = Inr r" by blast
    with m p show ?thesis by auto
  next
    case False
    with that have "r \<in> set n2" by simp
    with n2(2) show ?thesis by auto
  qed
  ultimately show ?case by blast
qed

lemma make_result_fields:
  "make_result ul df row = Inr r \<Longrightarrow>
   row_get df row ''Drug 1'' = Inr (drug1 r) \<and> row_get df row ''Drug 2'' = Inr (drug2 r)
   \<and> row_get df row ''RxCUI_1'' = Inr (rxcui1 r) \<and> row_get df row ''RxCUI_2'' = Inr (rxcui2 r)
   \<and> row_get df row ''Interaction Description'' = Inr (description r)
   \<and> alert_of_cell ul (description r) = Inr (alert r)"
  unfolding make_result_def by (auto split: sum.splits)






text \<open>
  The extractor of the source returns two names, so a request has at most two resolved
  identifiers.
\<close>

lemma placeholder_extractor_at_most_two:
  "build_rxcui_map rx (query_hugging_face_ner text) [] = Inr rxcui_map
   \<Longrightarrow> length (found_rxcui rxcui_map) \<le> 2"
  by (auto simp: query_hugging_face_ner_def found_rxcui_def split: sum.splits option.splits)


lemma get_rxcui_no_idGroup:
  "map_of items ''idGroup'' = None \<Longrightarrow> \<not> raise_for_status_raises status \<Longrightarrow>
   get_rxcui b (Response status (Some (JObj items))) = Inr None"
  by (simp add: get_rxcui_def py_contains_def)

lemma get_rxcui_no_rxnormId:
  "map_of items ''idGroup'' = Some (JObj group_items) \<Longrightarrow> map_of group_items ''rxnormId'' = None \<Longrightarrow>
   \<not> raise_for_status_raises status \<Longrightarrow>
   get_rxcui b (Response status (Some (JObj items))) = Inr None"
  by (simp add: get_rxcui_def py_contains_def py_getitem_def)

lemma lookup_failed_cases:
  assumes "lookup_failed (Response status body)" and "\<not> raise_for_status_raises status"
  shows "\<exists>items. body = Some (JObj items)
           \<and> (map_of items ''idGroup'' = None
              \<or> (\<exists>group_items. map_of items ''idGroup'' = Some (JObj group_items)
                    \<and> map_of group_items ''rxnormId'' = None))"
proof (cases body)
  case None
  with assms show ?thesis by (simp add: lookup_failed_def)
next
  case (Some data)
  show ?thesis
  proof (cases data)
    case (JObj items)
    show ?thesis
    proof (cases "map_of items ''idGroup''")
      case None
      with Some JObj show ?thesis by simp
    next
      case g: (Some group)
      show ?thesis
      proof (cases group)
        case inner: (JObj group_items)
        with assms Some JObj g show ?thesis by (simp add: lookup_failed_def)
      qed (use assms Some JObj g in \<open>simp_all add: lookup_failed_def\<close>)
    qed
  qed (use assms Some in \<open>simp_all add: lookup_failed_def\<close>)
qed

lemma get_rxcui_failed:
  assumes "lookup_failed result"
  shows "get_rxcui b result = Inr None"
proof (cases result)
  case RequestFailed
  then show ?thesis by (simp add: get_rxcui_def)
next
  case (Response status body)
  show ?thesis
  proof (cases "raise_for_status_raises status")
    case True
    with Response show ?thesis by (simp add: get_rxcui_def)
  next
    case False
    from lookup_failed_cases[OF assms[unfolded Response] False]
    obtain items where body: "body = Some (JObj items)"
      and g: "map_of items ''idGroup'' = None
              \<or> (\<exists>group_items. map_of items ''idGroup'' = Some (JObj group_items)
                    \<and> map_of group_items ''rxnormId'' = None)"
      by blast
    from g show ?thesis
    proof
      assume "map_of items ''idGroup'' = None"
      from get_rxcui_no_idGroup[OF this False] Response body show ?thesis by simp
    next
      assume "\<exists>group_items. map_of items ''idGroup'' = Some (JObj group_items)
                    \<and> map_of group_items ''rxnormId'' = None"
      then obtain group_items where "map_of items ''idGroup'' = Some (JObj group_items)"
        "map_of group_items ''rxnormId'' = None" by blast
      from get_rxcui_no_rxnormId[OF this False] Response body show ?thesis by simp
    qed
  qed
qed

lemma lookup_pair_no_rows:
  "rows df = [] \<Longrightarrow> col_pos ''RxCUI_1'' (columns df) = Some i \<Longrightarrow>
   col_pos ''RxCUI_2'' (columns df) = Some j \<Longrightarrow> lookup_pair df x y = Inr []"
  by (simp add: lookup_pair_def column_def select_rows_def)

lemma search_pairs_no_match:
  "(\<And>a b. lookup_pair df a b = Inr []) \<Longrightarrow> search_pairs ul df ps acc = Inr acc"
  by (induction ps arbitrary: acc) auto

lemma header_only_dataset_succeeds:
  assumes "rows df = []" and "col_pos ''RxCUI_1'' (columns df) = Some i"
    and "col_pos ''RxCUI_2'' (columns df) = Some j"
  shows "find_interactions ul df found
       = Inr (if length found < 2 then not_enough_message else checked_message, [])"
proof -
  have "lookup_pair df a b = Inr []" for a b
    using lookup_pair_no_rows[OF assms] .
  then have "search_pairs ul df (queried_pairs found) [] = Inr []"
    by (rule search_pairs_no_match)
  then show ?thesis by (simp add: find_interactions_def)
qed

section \<open>The claims\<close>



text \<open>
  C2. For every description \<open>d\<close>, \<^verbatim>\<open>get_ibm_granite_alerts(d)\<close> is the keyword
  classification of \<^verbatim>\<open>d.lower()\<close>: the severe message when one of increase, risk,
  harmful, severe occurs, else the high-risk message when one of decrease, monitor,
  caution occurs, else the no-severe-risk message; the three messages are different
  from each other, and the three examples of the specification land in the severe, the
  high-risk and the no-risk bucket.
\<close>

theorem summarize_classification:
  "get_ibm_granite_alerts ul d = summarize_spec ul d
   \<and> get_ibm_granite_alerts ul d = bucket_message (classify (py_lower ul d))
   \<and> severe_message \<noteq> high_risk_message
   \<and> severe_message \<noteq> no_risk_message
   \<and> high_risk_message \<noteq> no_risk_message
   \<and> classify (py_lower ul ''Risk of severe bleeding'') = Severe
   \<and> get_ibm_granite_alerts ul ''Risk of severe bleeding'' = severe_message
   \<and> classify (py_lower ul ''Monitor for caution'') = HighRisk
   \<and> get_ibm_granite_alerts ul ''Monitor for caution'' = high_risk_message
   \<and> classify (py_lower ul ''No notable effect'') = NoSevereRisk
   \<and> get_ibm_granite_alerts ul ''No notable effect'' = no_risk_message"
proof -
  have gen: "get_ibm_granite_alerts ul d = bucket_message (classify (py_lower ul d))"
    by (simp add: get_ibm_granite_alerts_def classify_def severe_keywords_def
        caution_keywords_def Let_def)
  have m: "severe_message \<noteq> high_risk_message" "severe_message \<noteq> no_risk_message"
    "high_risk_message \<noteq> no_risk_message"
    by (simp_all add: severe_message_def high_risk_message_def no_risk_message_def)
  have l1: "py_lower ul ''Risk of severe bleeding'' = ''risk of severe bleeding''"
    by (simp add: py_lower_def is_ascii_def lower_char_def)
  have l2: "py_lower ul ''Monitor for caution'' = ''monitor for caution''"
    by (simp add: py_lower_def is_ascii_def lower_char_def)
  have l3: "py_lower ul ''No notable effect'' = ''no notable effect''"
    by (simp add: py_lower_def is_ascii_def lower_char_def)
  have c1: "classify ''risk of severe bleeding'' = Severe"
    by (simp add: classify_def severe_keywords_def)
  have c2: "classify ''monitor for caution'' = HighRisk"
    by (simp add: classify_def severe_keywords_def caution_keywords_def)
  have c3: "classify ''no notable effect'' = NoSevereRisk"
    by (simp add: classify_def severe_keywords_def caution_keywords_def)
  have e1: "get_ibm_granite_alerts ul ''Risk of severe bleeding'' = severe_message"
    unfolding get_ibm_granite_alerts_def l1 by simp
  have e2: "get_ibm_granite_alerts ul ''Monitor for caution'' = high_risk_message"
    unfolding get_ibm_granite_alerts_def l2 by simp
  have e3: "get_ibm_granite_alerts ul ''No notable effect'' = no_risk_message"
    unfolding get_ibm_granite_alerts_def l3 by simp
  show ?thesis
    using gen m c1 c2 c3 e1 e2 e3 by (simp add: summarize_spec_def l1 l2 l3)
qed

text \<open>
  C3. When the dataset file is missing, \<^verbatim>\<open>load_ddi_dataset\<close> returns the frame with no
  columns; the pair lookup on it raises \<^verbatim>\<open>KeyError('RxCUI_1')\<close> for every pair of
  identifiers, and so does \<^verbatim>\<open>check_interactions\<close> once two drugs have resolved: the
  request does not succeed with an empty list.
\<close>

theorem missing_dataset_query_raises:
  "load_ddi_dataset FileNotFoundError = Inr empty_DataFrame
   \<and> lookup_pair empty_DataFrame id1 id2 = Inl (KeyError ''RxCUI_1'')
   \<and> check_interactions ul example_rx empty_DataFrame ''Paracetamol 500mg and Warfarin 10mg''
       = Inl (KeyError ''RxCUI_1'')"
proof -
  have l: "lookup_pair empty_DataFrame x y = Inl (KeyError ''RxCUI_1'')" for x y
    by (simp add: lookup_pair_def column_def empty_DataFrame_def)
  have "check_interactions ul example_rx empty_DataFrame ''Paracetamol 500mg and Warfarin 10mg''
      = Inl (KeyError ''RxCUI_1'')"
    by (simp add: check_interactions_def check_interactions_via_def query_hugging_face_ner_def
        example_rx_def found_rxcui_def find_interactions_def queried_pairs_def index_pairs_def l)
  with l[of id1 id2] show ?thesis by (simp add: load_ddi_dataset_def)
qed



text \<open>
  C5. When the extractor returns no drug, both endpoints raise
  \<^verbatim>\<open>HTTPException(status_code=404, detail="No drugs found in the prescription.")\<close>.
\<close>

theorem no_drugs_found:
  "ner text = [] \<Longrightarrow>
   check_interactions_via ul ner rx df text = Inl (HTTPException 404 no_drugs_detail)
   \<and> dosage_alternatives_via ul ner rx forms alts text age = Inl (HTTPException 404 no_drugs_detail)"
  by (simp add: check_interactions_via_def dosage_alternatives_via_def)

theorem no_drugs_found_witness:
  "(\<lambda>t. []) ''no medicine here'' = ([] :: string list)
   \<and> check_interactions_via example_lower (\<lambda>t. []) example_rx example_ddi ''no medicine here''
       = Inl (HTTPException 404 ''No drugs found in the prescription.'')
   \<and> dosage_alternatives_via example_lower (\<lambda>t. []) example_rx (\<lambda>x. Inr []) (\<lambda>x. Inr []) ''no medicine here'' 40
       = Inl (HTTPException 404 ''No drugs found in the prescription.'')"
  using no_drugs_found[of "\<lambda>t. []" "''no medicine here''" example_lower example_rx example_ddi
      "\<lambda>x. Inr []" "\<lambda>x. Inr []" 40]
  by (simp add: no_drugs_detail_def)

text \<open>
  C6, as stated. A response with status 200 whose JSON body has an empty list under
  \<^verbatim>\<open>idGroup.rxnormId\<close> makes \<^verbatim>\<open>get_rxcui\<close> raise \<^verbatim>\<open>IndexError\<close>: the exception is
  not a \<^verbatim>\<open>RequestException\<close> and leaves the function.
\<close>

theorem get_rxcui_raises_on_empty_id_list:
  "get_rxcui True (Response 200 (Some (JObj [(''idGroup'', JObj [(''rxnormId'', JArr [])])])))
     = Inl IndexError"
  by (simp add: get_rxcui_def raise_for_status_raises_def py_contains_def py_getitem_def
      py_getitem_0_def)

text \<open>
  C6, amended. \<^verbatim>\<open>get_rxcui\<close> returns \<^verbatim>\<open>None\<close> without raising when the request
  fails, when the status is an HTTP error, and when the body is a JSON object with no
  \<^verbatim>\<open>idGroup\<close> or with an \<^verbatim>\<open>idGroup\<close> object that has no \<^verbatim>\<open>rxnormId\<close>; and when
  the body is not JSON, provided the library raises its own \<^verbatim>\<open>JSONDecodeError\<close>.
\<close>

theorem get_rxcui_none_on_lookup_failure:
  "(lookup_failed result \<longrightarrow> get_rxcui json_error_caught result = Inr None)
   \<and> get_rxcui True (Response status None) = Inr None"
proof -
  have "get_rxcui True (Response status None) = Inr None"
    by (simp add: get_rxcui_def)
  then show ?thesis using get_rxcui_failed by blast
qed

theorem get_rxcui_none_on_lookup_failure_witness:
  "lookup_failed (Response 200 (Some (JObj [(''idGroup'', JObj [(''name'', JStr ''aspirinn'')])])))
   \<and> get_rxcui False (Response 200 (Some (JObj [(''idGroup'', JObj [(''name'', JStr ''aspirinn'')])])))
       = Inr None
   \<and> lookup_failed (Response 404 None)
   \<and> get_rxcui False (Response 404 None) = Inr None"
proof -
  have a: "lookup_failed (Response 200 (Some (JObj [(''idGroup'', JObj [(''name'', JStr ''aspirinn'')])])))"
    by (simp add: lookup_failed_def raise_for_status_raises_def)
  have b: "lookup_failed (Response 404 None)"
    by (simp add: lookup_failed_def raise_for_status_raises_def)
  from get_rxcui_none_on_lookup_failure[of
      "Response 200 (Some (JObj [(''idGroup'', JObj [(''name'', JStr ''aspirinn'')])]))" False 200]
    get_rxcui_none_on_lookup_failure[of "Response 404 None" False 200] a b
  show ?thesis by blast
qed

text \<open>
  C7. Every entry that \<^verbatim>\<open>dosage_alternatives\<close> returns carries the same status, fixed
  by the age and the raw text alone: the children label when the age is under 18 and the
  lower-cased text contains ``tablet'', else the elderly label when the age is over 65,
  else ``Appropriate''.
\<close>

theorem dosage_status_rule:
  assumes "dosage_alternatives_via ul ner rx forms alts text age = Inr (msg, results)"
    and "e \<in> set results"
  shows "dosage_status e =
           (if age < 18 \<and> py_in ''tablet'' (py_lower ul text)
            then ''May need dosage adjustment for children.''
            else if age > 65 then ''Monitor closely for elderly patients.''
            else ''Appropriate'')"
proof -
  from assms(1) have "dosage_loop ul rx forms alts age text (ner text) [] = Inr results"
    by (simp add: dosage_alternatives_via_def Let_def split: if_splits sum.splits)
  from dosage_loop_inv[OF this] assms(2)
  have "dosage_status e = dosage_status_of ul age text" by auto
  then show ?thesis by (simp add: dosage_status_of_def)
qed

theorem dosage_status_rule_witness:
  "dosage_alternatives example_lower example_rx (\<lambda>x. Inr [''Oral Tablet'']) (\<lambda>x. Inr []) ''Warfarin Tablet 5mg'' 10
     = Inr (dosage_message,
        [\<lparr>drug = ''Paracetamol'', rxcui = ''161'', dosage_forms = [''Oral Tablet''],
          alternatives = [], dosage_status = ''May need dosage adjustment for children.''\<rparr>,
         \<lparr>drug = ''Warfarin'', rxcui = ''11289'', dosage_forms = [''Oral Tablet''],
          alternatives = [], dosage_status = ''May need dosage adjustment for children.''\<rparr>])
   \<and> dosage_status_of example_lower 70 ''Warfarin Tablet 5mg'' = ''Monitor closely for elderly patients.''
   \<and> dosage_status_of example_lower 40 ''Warfarin Tablet 5mg'' = ''Appropriate''"
proof -
  have l: "py_lower example_lower ''Warfarin Tablet 5mg'' = ''warfarin tablet 5mg''"
    by (simp add: py_lower_def is_ascii_def lower_char_def)
  have t: "py_in ''tablet'' ''warfarin tablet 5mg''" by simp
  have s: "dosage_status_of example_lower 10 ''Warfarin Tablet 5mg'' = ''May need dosage adjustment for children.''"
    "dosage_status_of example_lower 70 ''Warfarin Tablet 5mg'' = ''Monitor closely for elderly patients.''"
    "dosage_status_of example_lower 40 ''Warfarin Tablet 5mg'' = ''Appropriate''"
    unfolding dosage_status_of_def l using t by simp_all
  let ?e1 = "\<lparr>drug = ''Paracetamol'', rxcui = ''161'', dosage_forms = [''Oral Tablet''],
          alternatives = [], dosage_status = dosage_status_of example_lower 10 ''Warfarin Tablet 5mg''\<rparr>"
  let ?e2 = "\<lparr>drug = ''Warfarin'', rxcui = ''11289'', dosage_forms = [''Oral Tablet''],
          alternatives = [], dosage_status = dosage_status_of example_lower 10 ''Warfarin Tablet 5mg''\<rparr>"
  have run: "dosage_alternatives_via example_lower query_hugging_face_ner example_rx (\<lambda>x. Inr [''Oral Tablet''])
      (\<lambda>x. Inr []) ''Warfarin Tablet 5mg'' 10 = Inr (dosage_message, [?e1, ?e2])"
    by (simp add: dosage_alternatives_via_def query_hugging_face_ner_def example_rx_def)
  have "?e2 \<in> set [?e1, ?e2]" by simp
  from dosage_status_rule[OF run this] l t
  have "dosage_status ?e2 = ''May need dosage adjustment for children.''" by simp
  then have "dosage_status_of example_lower 10 ''Warfarin Tablet 5mg'' = ''May need dosage adjustment for children.''"
    by simp
  with run s show ?thesis by (simp add: dosage_alternatives_def)
qed




text \<open>
  C9. In \<^verbatim>\<open>dosage_alternatives\<close> a drug whose lookup returns \<^verbatim>\<open>None\<close> has no entry in
  the results; when every extracted drug fails to resolve, the endpoint returns the
  success message with an empty results list.
\<close>

theorem unresolved_drug_has_no_entry:
  "(dosage_alternatives_via ul ner rx forms alts text age = Inr (msg, results) \<and> rx d = Inr None
      \<longrightarrow> d \<notin> drug ` set results)
   \<and> (ner text \<noteq> [] \<and> (\<forall>d \<in> set (ner text). rx d = Inr None)
      \<longrightarrow> dosage_alternatives_via ul ner rx forms alts text age = Inr (dosage_message, []))"
proof -
  have one: "d \<notin> drug ` set results"
    if run: "dosage_alternatives_via ul ner rx forms alts text age = Inr (msg, results)"
      and none: "rx d = Inr None"
  proof
    assume "d \<in> drug ` set results"
    then obtain e where e: "e \<in> set results" "drug e = d" by auto
    from run have "dosage_loop ul rx forms alts age text (ner text) [] = Inr results"
      by (simp add: dosage_alternatives_via_def Let_def split: if_splits sum.splits)
    from dosage_loop_inv[OF this] e(1) have "rx (drug e) = Inr (Some (rxcui e))" by auto
    with e(2) none show False by simp
  qed
  have all: "dosage_alternatives_via ul ner rx forms alts text age = Inr (dosage_message, [])"
    if "ner text \<noteq> []" "\<forall>d \<in> set (ner text). rx d = Inr None"
    using that dosage_loop_none[of "ner text" rx ul forms alts age "text" "[]"]
    by (simp add: dosage_alternatives_via_def Let_def)
  from one all show ?thesis by blast
qed

theorem unresolved_drug_has_no_entry_witness:
  "dosage_alternatives example_lower only_warfarin_rx (\<lambda>x. Inr []) (\<lambda>x. Inr []) ''Paracetamol and Warfarin'' 40
     = Inr (dosage_message,
        [\<lparr>drug = ''Warfarin'', rxcui = ''11289'', dosage_forms = [], alternatives = [],
          dosage_status = ''Appropriate''\<rparr>])
   \<and> only_warfarin_rx ''Paracetamol'' = Inr None
   \<and> ''Paracetamol'' \<notin> drug ` set
        [\<lparr>drug = ''Warfarin'', rxcui = ''11289'', dosage_forms = [], alternatives = [],
          dosage_status = ''Appropriate''\<rparr>]
   \<and> dosage_alternatives example_lower (\<lambda>d. Inr None) (\<lambda>x. Inr []) (\<lambda>x. Inr []) ''Paracetamol and Warfarin'' 40
       = Inr (dosage_message, [])"
proof -
  let ?e = "\<lparr>drug = ''Warfarin'', rxcui = ''11289'', dosage_forms = [], alternatives = [],
          dosage_status = ''Appropriate''\<rparr>"
  have l: "py_lower example_lower ''Paracetamol and Warfarin'' = ''paracetamol and warfarin''"
    by (simp add: py_lower_def is_ascii_def lower_char_def)
  have s: "dosage_status_of example_lower 40 ''Paracetamol and Warfarin'' = ''Appropriate''"
    unfolding dosage_status_of_def l by simp
  have run: "dosage_alternatives_via example_lower query_hugging_face_ner only_warfarin_rx (\<lambda>x. Inr [])
      (\<lambda>x. Inr []) ''Paracetamol and Warfarin'' 40 = Inr (dosage_message, [?e])"
    by (simp add: dosage_alternatives_via_def query_hugging_face_ner_def only_warfarin_rx_def s)
  have none: "only_warfarin_rx ''Paracetamol'' = Inr None"
    by (simp add: only_warfarin_rx_def)
  have ne: "query_hugging_face_ner ''Paracetamol and Warfarin'' \<noteq> []"
    by (simp add: query_hugging_face_ner_def)
  from unresolved_drug_has_no_entry[of example_lower query_hugging_face_ner only_warfarin_rx "\<lambda>x. Inr []"
      "\<lambda>x. Inr []" "''Paracetamol and Warfarin''" 40 dosage_message "[?e]" "''Paracetamol''"]
    run none
  have a: "''Paracetamol'' \<notin> drug ` set [?e]" by blast
  from unresolved_drug_has_no_entry[of example_lower query_hugging_face_ner "\<lambda>d. Inr None" "\<lambda>x. Inr []"
      "\<lambda>x. Inr []" "''Paracetamol and Warfarin''" 40 dosage_message "[]" "''Paracetamol''"] ne
  have b: "dosage_alternatives_via example_lower query_hugging_face_ner (\<lambda>d. Inr None) (\<lambda>x. Inr [])
      (\<lambda>x. Inr []) ''Paracetamol and Warfarin'' 40 = Inr (dosage_message, [])"
    by simp
  from run none a b show ?thesis by (simp add: dosage_alternatives_def)
qed

text \<open>
  C10. Every entry of the \<^verbatim>\<open>interactions\<close> list comes from one row of the dataset,
  a row that holds the two identifiers of a looked-up pair in one order or the other:
  the entry's \<^verbatim>\<open>drug1\<close>, \<^verbatim>\<open>drug2\<close>, \<^verbatim>\<open>rxcui1\<close>, \<^verbatim>\<open>rxcui2\<close> and
  \<^verbatim>\<open>description\<close> are that row's cells under \<^verbatim>\<open>Drug 1\<close>, \<^verbatim>\<open>Drug 2\<close>,
  \<^verbatim>\<open>RxCUI_1\<close>, \<^verbatim>\<open>RxCUI_2\<close> and \<^verbatim>\<open>Interaction Description\<close>, in the row's order
  whatever the order of the looked-up pair, and its alert is the summary of that
  description.
\<close>

theorem result_fields_from_dataset_row:
  assumes "check_interactions_via ul ner rx df text = Inr (msg, results)"
    and "r \<in> set results"
  shows "\<exists>rxcui_map id1 id2 row.
           build_rxcui_map rx (ner text) [] = Inr rxcui_map
           \<and> (id1, id2) \<in> set (queried_pairs (found_rxcui rxcui_map))
           \<and> row \<in> set (rows df)
           \<and> ((row_get df row ''RxCUI_1'' = Inr (CStr id1)
                 \<and> row_get df row ''RxCUI_2'' = Inr (CStr id2))
              \<or> (row_get df row ''RxCUI_1'' = Inr (CStr id2)
                 \<and> row_get df row ''RxCUI_2'' = Inr (CStr id1)))
           \<and> row_get df row ''Drug 1'' = Inr (drug1 r)
           \<and> row_get df row ''Drug 2'' = Inr (drug2 r)
           \<and> row_get df row ''RxCUI_1'' = Inr (rxcui1 r)
           \<and> row_get df row ''RxCUI_2'' = Inr (rxcui2 r)
           \<and> row_get df row ''Interaction Description'' = Inr (description r)
           \<and> alert_of_cell ul (description r) = Inr (alert r)"
proof -
  from assms(1) obtain m where m: "build_rxcui_map rx (ner text) [] = Inr m"
    and fi: "find_interactions ul df (found_rxcui m) = Inr (msg, results)"
    by (auto simp: check_interactions_via_def Let_def split: if_splits sum.splits)
  from fi have "results = [] \<or> search_pairs ul df (queried_pairs (found_rxcui m)) [] = Inr results"
    by (auto simp: find_interactions_def split: if_splits sum.splits)
  with assms(2) have "search_pairs ul df (queried_pairs (found_rxcui m)) [] = Inr results" by auto
  from search_pairs_inv[OF this] assms(2)
  obtain p matched row where p: "p \<in> set (queried_pairs (found_rxcui m))"
    and lk: "lookup_pair df (fst p) (snd p) = Inr matched"
    and row: "row \<in> set matched" "make_result ul df row = Inr r"
    by auto
  from p have q: "(fst p, snd p) \<in> set (queried_pairs (found_rxcui m))" by simp
  from lookup_pair_matches[OF lk row(1)] make_result_fields[OF row(2)] m q
  show ?thesis by blast
qed

theorem result_fields_from_dataset_row_witness:
  "check_interactions example_lower example_rx example_ddi ''Paracetamol 500mg and Warfarin 10mg''
     = Inr (checked_message,
        [\<lparr>drug1 = CStr ''Warfarin'', drug2 = CStr ''Paracetamol'', rxcui1 = CStr ''11289'',
          rxcui2 = CStr ''161'', description = CStr ''May increase risk of bleeding'',
          alert = severe_message\<rparr>])
   \<and> queried_pairs [''161'', ''11289''] = [(''161'', ''11289'')]
   \<and> (\<exists>row \<in> set (rows example_ddi).
        row_get example_ddi row ''Drug 1'' = Inr (CStr ''Warfarin'')
        \<and> row_get example_ddi row ''RxCUI_1'' = Inr (CStr ''11289''))"
proof -
  let ?r = "\<lparr>drug1 = CStr ''Warfarin'', drug2 = CStr ''Paracetamol'', rxcui1 = CStr ''11289'',
          rxcui2 = CStr ''161'', description = CStr ''May increase risk of bleeding'',
          alert = severe_message\<rparr>"
  have l: "py_lower example_lower ''May increase risk of bleeding'' = ''may increase risk of bleeding''"
    by (simp add: py_lower_def is_ascii_def lower_char_def)
  have al: "get_ibm_granite_alerts example_lower ''May increase risk of bleeding'' = severe_message"
    unfolding get_ibm_granite_alerts_def l by simp
  have q: "queried_pairs [''161'', ''11289''] = [(''161'', ''11289'')]"
    by (simp add: queried_pairs_def index_pairs_def)
  have lk: "lookup_pair example_ddi ''161'' ''11289''
      = Inr [[CStr ''Warfarin'', CStr ''Paracetamol'', CStr ''11289'', CStr ''161'',
              CStr ''May increase risk of bleeding'']]"
    by (simp add: lookup_pair_def column_def example_ddi_def cell_at_def series_eq_def
        mask_and_def mask_or_def select_rows_def)
  have mk: "make_result example_lower example_ddi
      [CStr ''Warfarin'', CStr ''Paracetamol'', CStr ''11289'', CStr ''161'',
       CStr ''May increase risk of bleeding''] = Inr ?r"
    by (simp add: make_result_def row_get_def example_ddi_def cell_at_def alert_of_cell_def al)
  have sp: "search_pairs example_lower example_ddi [(''161'', ''11289'')] [] = Inr [?r]"
    by (simp add: lk mk)
  have fi: "find_interactions example_lower example_ddi [''161'', ''11289'']
      = Inr (checked_message, [?r])"
    unfolding find_interactions_def q sp by simp
  have run: "check_interactions_via example_lower query_hugging_face_ner example_rx example_ddi
      ''Paracetamol 500mg and Warfarin 10mg'' = Inr (checked_message, [?r])"
    by (simp add: check_interactions_via_def query_hugging_face_ner_def example_rx_def
        found_rxcui_def fi)
  have "?r \<in> set [?r]" by simp
  from result_fields_from_dataset_row[OF run this]
  have "\<exists>row \<in> set (rows example_ddi).
        row_get example_ddi row ''Drug 1'' = Inr (CStr ''Warfarin'')
        \<and> row_get example_ddi row ''RxCUI_1'' = Inr (CStr ''11289'')"
    by auto
  with run q show ?thesis by (simp add: check_interactions_def)
qed

end
